theory Spec2Isabelle
  imports Complex_Main "HOL-Library.Multiset"
begin

section \<open>Values of the request body\<close>

text \<open>
  The handlers destructure \<^verbatim>\<open>req.body\<close>, whose type is \<^verbatim>\<open>any\<close>: a field of the
  body is absent (\<^verbatim>\<open>undefined\<close>) or any JSON value.  \<open>JSet v\<close> is the object
  \<^verbatim>\<open>{ set: v }\<close> with this one key, which the store client reads as an update operation;
  \<open>JOther\<close> is an array or any other object.
\<close>

datatype jsval =
    JUndefined
  | JNull
  | JString string
  | JNumber rat
  | JBool bool
  | JSet jsval
  | JOther

text \<open>
  JavaScript truthiness, as used by \<^verbatim>\<open>!x\<close>: the empty string, zero and
  \<^verbatim>\<open>false\<close> are falsy, every array and object is truthy.
\<close>

fun truthy :: "jsval \<Rightarrow> bool" where
  "truthy JUndefined = False"
| "truthy JNull = False"
| "truthy (JString s) = (s \<noteq> [])"
| "truthy (JNumber n) = (n \<noteq> 0)"
| "truthy (JBool b) = b"
| "truthy (JSet v) = True"
| "truthy JOther = True"

text \<open>Truthiness of a nullable string column (\<^verbatim>\<open>string | null\<close>).\<close>

fun truthy_col :: "string option \<Rightarrow> bool" where
  "truthy_col None = False"
| "truthy_col (Some s) = (s \<noteq> [])"

text \<open>
  A \<^verbatim>\<open>Date\<close> object: a valid instant (milliseconds since the epoch) or the
  \<^verbatim>\<open>Invalid Date\<close>.
\<close>

datatype jsdate = ValidDate int | InvalidDate

text \<open>
  A date field of the request body: absent, \<^verbatim>\<open>null\<close>, or a text together with the
  \<^verbatim>\<open>Date\<close> that the \<^verbatim>\<open>Date\<close> constructor reads from that text (the parsing
  itself is not modelled).  The handlers only test the field for truthiness and hand it to
  the \<^verbatim>\<open>Date\<close> constructor, so every other JSON value behaves as one of these: zero
  and \<^verbatim>\<open>false\<close> as \<^verbatim>\<open>null\<close> (falsy, the epoch), a truthy value as a non-empty
  text with the \<^verbatim>\<open>Date\<close> made of it.
\<close>

datatype jsdatefield = DUndefined | DNull | DString string jsdate

fun truthy_date :: "jsdatefield \<Rightarrow> bool" where
  "truthy_date DUndefined = False"
| "truthy_date DNull = False"
| "truthy_date (DString s d) = (s \<noteq> [])"

text \<open>\<^verbatim>\<open>new Date(x)\<close>: \<^verbatim>\<open>undefined\<close> gives the invalid date, \<^verbatim>\<open>null\<close> the epoch.\<close>

fun new_Date :: "jsdatefield \<Rightarrow> jsdate" where
  "new_Date DUndefined = InvalidDate"
| "new_Date DNull = ValidDate 0"
| "new_Date (DString s d) = d"

section \<open>Data model\<close>

text \<open>
  Modelled from the spec: the column types of the tables (the schema file of the store is
  not among the sources).  The fields are those the handlers read and write; the names are
  the source's, with a prefix where two tables share a name (\<^verbatim>\<open>id\<close>, \<^verbatim>\<open>sport\<close>,
  \<^verbatim>\<open>status\<close>, \<^verbatim>\<open>date\<close>, \<^verbatim>\<open>createdAt\<close>), and \<open>proof_ref\<close> for the column
  \<^verbatim>\<open>proof\<close>.  Instants are milliseconds since the epoch.  The handlers treat the
  status as a string; whether its column takes every string or only the values of an
  enumeration is decided by the schema, so it is a parameter of the store
  (\<open>status_column\<close> below).
\<close>

record user =
  user_id :: string
  username :: string
  role :: string
  user_sport :: "string option"

record achievement =
  ach_id :: string
  ownerId :: string
  title :: string
  date :: int
  description :: "string option"
  proof_ref :: "string option"
  sport :: string
  venue :: string
  status :: string
  decisionReason :: "string option"
  verifiedById :: "string option"
  verifiedByName :: "string option"
  verifiedAt :: "int option"
  createdAt :: int
  updatedAt :: int

record schedule =
  sched_id :: string
  coachId :: string
  sched_date :: int

record scheduleRequest =
  scheduleId :: string
  playerId :: string
  req_status :: string
  req_createdAt :: int

record tournamentRegistration =
  reg_playerId :: string
  regStatus :: string

text \<open>
  The persistent store.  Users are looked up by their key only; the other tables are
  listed, so they are kept as lists of rows.  \<open>status_column\<close> says which strings the
  store accepts as the status of an achievement: every string for a text column, the
  values of the enumeration otherwise.
\<close>

record store =
  status_column :: "string \<Rightarrow> bool"
  users :: "string \<rightharpoonup> user"
  achievements :: "achievement list"
  schedules :: "schedule list"
  scheduleRequests :: "scheduleRequest list"
  registrations :: "tournamentRegistration list"

text \<open>
  A response: a status code with the JSON body on success, or a status code with the text
  of the \<^verbatim>\<open>error\<close> field.
\<close>

datatype 'a reply = Reply nat 'a | Failure nat string

section \<open>The store client\<close>

text \<open>\<^verbatim>\<open>prisma.achievement.findUnique({ where: { id } })\<close>\<close>

definition findUnique :: "achievement list \<Rightarrow> string \<Rightarrow> achievement option" where
  "findUnique rows i = find (\<lambda>a. ach_id a = i) rows"

text \<open>
  The \<^verbatim>\<open>data\<close> object of an update.  The contract of the store client for a string
  column: a field that is \<^verbatim>\<open>undefined\<close> is left as it is; a string is written;
  \<^verbatim>\<open>null\<close> clears a nullable column and is rejected (an exception) for a required one;
  \<^verbatim>\<open>{ set: v }\<close> writes \<open>v\<close> as the plain value \<open>v\<close> would be written, for a string
  or \<^verbatim>\<open>null\<close>; every other value is rejected.  An invalid \<^verbatim>\<open>Date\<close> is rejected.
\<close>

record patch =
  p_title :: jsval
  p_sport :: jsval
  p_date :: "jsdate option"
  p_venue :: jsval
  p_description :: jsval
  p_updatedAt :: "int option"
  p_status :: jsval
  p_decisionReason :: jsval
  p_verifiedById :: jsval
  p_verifiedByName :: jsval
  p_verifiedAt :: "int option"

definition no_patch :: patch where
  "no_patch = \<lparr> p_title = JUndefined, p_sport = JUndefined, p_date = None,
     p_venue = JUndefined, p_description = JUndefined, p_updatedAt = None,
     p_status = JUndefined, p_decisionReason = JUndefined, p_verifiedById = JUndefined,
     p_verifiedByName = JUndefined, p_verifiedAt = None \<rparr>"

text \<open>What the client accepts for a required and for a nullable string column.\<close>

fun required_ok :: "jsval \<Rightarrow> bool" where
  "required_ok JUndefined = True"
| "required_ok (JString v) = True"
| "required_ok (JSet (JString v)) = True"
| "required_ok v = False"

fun nullable_ok :: "jsval \<Rightarrow> bool" where
  "nullable_ok JUndefined = True"
| "nullable_ok JNull = True"
| "nullable_ok (JString v) = True"
| "nullable_ok (JSet JNull) = True"
| "nullable_ok (JSet (JString v)) = True"
| "nullable_ok v = False"

text \<open>The status column also checks the string against the type of the column.\<close>

fun status_ok :: "(string \<Rightarrow> bool) \<Rightarrow> jsval \<Rightarrow> bool" where
  "status_ok col JUndefined = True"
| "status_ok col (JString v) = col v"
| "status_ok col (JSet (JString v)) = col v"
| "status_ok col v = False"

text \<open>
  Whether the client accepts the data; if not, it throws before anything is written.
\<close>

definition valid_patch :: "(string \<Rightarrow> bool) \<Rightarrow> patch \<Rightarrow> bool" where
  "valid_patch col p =
     (required_ok (p_title p) \<and> required_ok (p_sport p) \<and> required_ok (p_venue p) \<and>
      status_ok col (p_status p) \<and> p_date p \<noteq> Some InvalidDate \<and>
      nullable_ok (p_description p) \<and> nullable_ok (p_decisionReason p) \<and>
      nullable_ok (p_verifiedById p) \<and> nullable_ok (p_verifiedByName p))"

text \<open>Writing to a required string column (the data has been accepted).\<close>

fun set_required :: "jsval \<Rightarrow> string \<Rightarrow> string" where
  "set_required (JString v) old = v"
| "set_required (JSet (JString v)) old = v"
| "set_required v old = old"

text \<open>Writing to a nullable string column (the data has been accepted).\<close>

fun set_nullable :: "jsval \<Rightarrow> string option \<Rightarrow> string option" where
  "set_nullable JNull old = None"
| "set_nullable (JString v) old = Some v"
| "set_nullable (JSet JNull) old = None"
| "set_nullable (JSet (JString v)) old = Some v"
| "set_nullable v old = old"

fun set_date :: "jsdate option \<Rightarrow> int \<Rightarrow> int" where
  "set_date (Some (ValidDate t)) old = t"
| "set_date (Some InvalidDate) old = old"
| "set_date None old = old"

fun set_instant :: "int option \<Rightarrow> int \<Rightarrow> int" where
  "set_instant None old = old"
| "set_instant (Some t) old = t"

fun set_nullable_instant :: "int option \<Rightarrow> int option \<Rightarrow> int option" where
  "set_nullable_instant None old = old"
| "set_nullable_instant (Some t) old = Some t"

definition apply_patch :: "patch \<Rightarrow> achievement \<Rightarrow> achievement" where
  "apply_patch p a = a\<lparr>
     title := set_required (p_title p) (title a),
     sport := set_required (p_sport p) (sport a),
     date := set_date (p_date p) (date a),
     venue := set_required (p_venue p) (venue a),
     description := set_nullable (p_description p) (description a),
     updatedAt := set_instant (p_updatedAt p) (updatedAt a),
     status := set_required (p_status p) (status a),
     decisionReason := set_nullable (p_decisionReason p) (decisionReason a),
     verifiedById := set_nullable (p_verifiedById p) (verifiedById a),
     verifiedByName := set_nullable (p_verifiedByName p) (verifiedByName a),
     verifiedAt := set_nullable_instant (p_verifiedAt p) (verifiedAt a) \<rparr>"

fun replace_row :: "string \<Rightarrow> achievement \<Rightarrow> achievement list \<Rightarrow> achievement list" where
  "replace_row i r [] = []"
| "replace_row i r (x # xs) = (if ach_id x = i then r # xs else x # replace_row i r xs)"

fun delete_row :: "string \<Rightarrow> achievement list \<Rightarrow> achievement list" where
  "delete_row i [] = []"
| "delete_row i (x # xs) = (if ach_id x = i then xs else x # delete_row i xs)"

text \<open>
  \<^verbatim>\<open>prisma.achievement.update({ where: { id }, data })\<close>: \<open>None\<close> when the client throws
  (no such row, or data it rejects), otherwise the updated row and the new table.
\<close>

definition achievement_update ::
  "(string \<Rightarrow> bool) \<Rightarrow> achievement list \<Rightarrow> string \<Rightarrow> patch \<Rightarrow>
     (achievement \<times> achievement list) option" where
  "achievement_update col rows i p =
     (case findUnique rows i of
        None \<Rightarrow> None
      | Some a \<Rightarrow>
          if valid_patch col p
          then Some (apply_patch p a, replace_row i (apply_patch p a) rows)
          else None)"

section \<open>The authorization checks\<close>

text \<open>
  The negation of \<^verbatim>\<open>!coach || coach.role !== "Coach" || !coach.sport\<close>, for the result of
  the user lookup.
\<close>

fun coach_with_sport :: "user option \<Rightarrow> bool" where
  "coach_with_sport None = False"
| "coach_with_sport (Some c) = (role c = ''Coach'' \<and> truthy_col (user_sport c))"

section \<open>PATCH /api/achievements/:id/verify\<close>

definition verify_data :: "user \<Rightarrow> jsval \<Rightarrow> jsval \<Rightarrow> int \<Rightarrow> patch" where
  "verify_data coach decision reason now = no_patch\<lparr>
     p_status := decision,
     p_decisionReason := (if decision = JString ''REJECTED'' then reason else JNull),
     p_verifiedById := JString (user_id coach),
     p_verifiedByName := JString (username coach),
     p_verifiedAt := Some now \<rparr>"

text \<open>
  Both rows are read first, then the three checks run in the order of the source.  The
  handler's \<^verbatim>\<open>catch\<close> answers 500 when the update throws.
\<close>

definition verify ::
  "store \<Rightarrow> int \<Rightarrow> string \<Rightarrow> string \<Rightarrow> jsval \<Rightarrow> jsval \<Rightarrow> achievement reply \<times> store" where
  "verify s now caller i decision reason =
     (case users s caller of
        None \<Rightarrow> (Failure 403 ''Forbidden: Not a coach'', s)
      | Some coach \<Rightarrow>
          if \<not> coach_with_sport (Some coach)
          then (Failure 403 ''Forbidden: Not a coach'', s)
          else (case findUnique (achievements s) i of
             None \<Rightarrow> (Failure 404 ''Achievement not found'', s)
           | Some a \<Rightarrow>
               if Some (sport a) \<noteq> user_sport coach
               then (Failure 403 ''Forbidden: Cannot verify achievement for a different sport'', s)
               else (case achievement_update (status_column s) (achievements s) i
                            (verify_data coach decision reason now) of
                  None \<Rightarrow> (Failure 500 ''Server error'', s)
                | Some (a', rows) \<Rightarrow> (Reply 200 a', s\<lparr>achievements := rows\<rparr>))))"

section \<open>PUT /api/achievements/:id\<close>

record update_body =
  b_title :: jsval
  b_sport :: jsval
  b_date :: jsdatefield
  b_venue :: jsval
  b_description :: jsval

definition update_data :: "update_body \<Rightarrow> int \<Rightarrow> patch" where
  "update_data body now = no_patch\<lparr>
     p_title := b_title body,
     p_sport := b_sport body,
     p_date := Some (new_Date (b_date body)),
     p_venue := b_venue body,
     p_description := b_description body,
     p_updatedAt := Some now \<rparr>"

definition update_achievement ::
  "store \<Rightarrow> int \<Rightarrow> string \<Rightarrow> string \<Rightarrow> update_body \<Rightarrow> achievement reply \<times> store" where
  "update_achievement s now caller i body =
     (case findUnique (achievements s) i of
        None \<Rightarrow> (Failure 404 ''Achievement not found or unauthorized'', s)
      | Some a \<Rightarrow>
          if ownerId a \<noteq> caller
          then (Failure 404 ''Achievement not found or unauthorized'', s)
          else (case achievement_update (status_column s) (achievements s) i
                       (update_data body now) of
             None \<Rightarrow> (Failure 500 ''Server error'', s)
           | Some (a', rows) \<Rightarrow> (Reply 200 a', s\<lparr>achievements := rows\<rparr>)))"

section \<open>DELETE /api/achievements/:id\<close>

definition delete_achievement :: "store \<Rightarrow> string \<Rightarrow> string \<Rightarrow> unit reply \<times> store" where
  "delete_achievement s caller i =
     (case findUnique (achievements s) i of
        None \<Rightarrow> (Failure 404 ''Achievement not found or unauthorized'', s)
      | Some a \<Rightarrow>
          if ownerId a \<noteq> caller
          then (Failure 404 ''Achievement not found or unauthorized'', s)
          else if status a = ''APPROVED''
          then (Failure 403 ''Cannot delete an approved achievement.'', s)
          else (Reply 204 (), s\<lparr>achievements := delete_row i (achievements s)\<rparr>))"

section \<open>POST /api/achievements\<close>

record create_body =
  c_title :: jsval
  c_date :: jsdatefield
  c_description :: jsval
  c_proof :: jsval
  c_sport :: jsval
  c_venue :: jsval

text \<open>
  The row the store makes of the data: the columns the handler does not give take their
  defaults (no decision, no verifier, both timestamps the time of the insertion).  The id
  is assigned by the store; \<open>new_id\<close> stands for the id it assigns.
\<close>

definition new_row ::
  "string \<Rightarrow> int \<Rightarrow> string \<Rightarrow> create_body \<Rightarrow> int \<Rightarrow> achievement" where
  "new_row new_id now caller body d =
     \<lparr> ach_id = new_id, ownerId = caller,
       title = set_required (c_title body) [],
       date = d,
       description = set_nullable (c_description body) None,
       proof_ref = set_nullable (c_proof body) None,
       sport = set_required (c_sport body) [],
       venue = set_required (c_venue body) [],
       status = ''PENDING'', decisionReason = None, verifiedById = None,
       verifiedByName = None, verifiedAt = None, createdAt = now, updatedAt = now \<rparr>"

text \<open>
  What the client accepts as the data of a create: a string for a required column, a
  string, \<^verbatim>\<open>null\<close> or nothing for a nullable one, and the literal status PENDING if
  the status column takes it.
\<close>

fun is_string :: "jsval \<Rightarrow> bool" where
  "is_string (JString v) = True"
| "is_string v = False"

fun optional_string :: "jsval \<Rightarrow> bool" where
  "optional_string JUndefined = True"
| "optional_string JNull = True"
| "optional_string (JString v) = True"
| "optional_string v = False"

definition valid_create :: "(string \<Rightarrow> bool) \<Rightarrow> create_body \<Rightarrow> bool" where
  "valid_create col body =
     (is_string (c_title body) \<and> is_string (c_sport body) \<and> is_string (c_venue body) \<and>
      optional_string (c_description body) \<and> optional_string (c_proof body) \<and>
      col ''PENDING'')"

text \<open>
  The handler's \<^verbatim>\<open>catch\<close> answers 500 when the store throws: for an invalid
  \<^verbatim>\<open>Date\<close>, for data the client rejects, for an owner without a user row (the foreign
  key of the owner relation), and for an id that is already in the table (which an id
  assigned by the store never is).
\<close>

definition create_achievement ::
  "store \<Rightarrow> int \<Rightarrow> string \<Rightarrow> string \<Rightarrow> create_body \<Rightarrow> achievement reply \<times> store" where
  "create_achievement s now new_id caller body =
     (if \<not> truthy (c_title body) \<or> \<not> truthy_date (c_date body) \<or>
         \<not> truthy (c_sport body) \<or> \<not> truthy (c_venue body)
      then (Failure 400 ''Missing required fields'', s)
      else (case new_Date (c_date body) of
         InvalidDate \<Rightarrow> (Failure 500 ''Server error'', s)
       | ValidDate d \<Rightarrow>
           if \<not> valid_create (status_column s) body \<or> users s caller = None \<or>
              findUnique (achievements s) new_id \<noteq> None
           then (Failure 500 ''Server error'', s)
           else (Reply 201 (new_row new_id now caller body d),
                 s\<lparr>achievements := achievements s @ [new_row new_id now caller body d]\<rparr>)))"

section \<open>The lifecycle as a sequence of requests\<close>

text \<open>
  A request to one of the four lifecycle endpoints, with the clock reading at the time it
  is served.  \<open>OpUsers\<close> stands for any change of the user table by the profile and
  registration endpoints, which do not touch the achievements.
\<close>

datatype op =
    OpCreate int string string create_body
  | OpUpdate int string string update_body
  | OpDelete string string
  | OpVerify int string string jsval jsval
  | OpUsers "string \<rightharpoonup> user"

fun step :: "store \<Rightarrow> op \<Rightarrow> store" where
  "step s (OpCreate now new_id caller body) = snd (create_achievement s now new_id caller body)"
| "step s (OpUpdate now caller i body) = snd (update_achievement s now caller i body)"
| "step s (OpDelete caller i) = snd (delete_achievement s caller i)"
| "step s (OpVerify now caller i decision reason) = snd (verify s now caller i decision reason)"
| "step s (OpUsers us) = s\<lparr>users := us\<rparr>"

definition run :: "store \<Rightarrow> op list \<Rightarrow> store" where
  "run s ops = foldl step s ops"

section \<open>GET /api/achievements/pending\<close>

text \<open>
  \<^verbatim>\<open>findMany\<close> with the filter on status and sport, \<^verbatim>\<open>orderBy: { createdAt: "desc" }\<close>
  and the owner's username included.  Rows with the same creation time keep the order of
  the table.
\<close>

definition pending_of_sport :: "achievement list \<Rightarrow> string \<Rightarrow> achievement list" where
  "pending_of_sport rows sp =
     sort_key (\<lambda>a. - createdAt a) (filter (\<lambda>a. status a = ''PENDING'' \<and> sport a = sp) rows)"

definition with_owner :: "store \<Rightarrow> achievement \<Rightarrow> achievement \<times> string option" where
  "with_owner s a = (a, map_option username (users s (ownerId a)))"

definition list_pending :: "store \<Rightarrow> string \<Rightarrow> (achievement \<times> string option) list reply" where
  "list_pending s caller =
     (case users s caller of
        None \<Rightarrow> Failure 403 ''Forbidden''
      | Some coach \<Rightarrow>
          if role coach \<noteq> ''Coach'' then Failure 403 ''Forbidden''
          else (case user_sport coach of
             None \<Rightarrow> Failure 403 ''Forbidden''
           | Some sp \<Rightarrow>
               if sp = [] then Failure 403 ''Forbidden''
               else Reply 200 (map (with_owner s) (pending_of_sport (achievements s) sp))))"

section \<open>Double-precision arithmetic of the report\<close>

text \<open>
  A finite non-negative double: \<open>Double m e\<close> is the number \<open>m * 2 ^ e\<close>.  The report
  divides two array lengths and multiplies by 100, so neither a sign, nor an infinity, nor
  a subnormal number occurs.
\<close>

datatype double = Double nat int

text \<open>The integer nearest to \<open>p / q\<close>, a tie going to the even one.\<close>

definition nearest_even :: "nat \<Rightarrow> nat \<Rightarrow> nat" where
  "nearest_even p q =
     (let d = p div q; r = p mod q
      in if 2 * r < q then d
         else if q < 2 * r then d + 1
         else if even d then d else d + 1)"

text \<open>
  The double nearest to \<open>p / q * 2 ^ e\<close> (round to nearest, ties to even, 53 significant
  bits): the quotient is scaled into \<open>[2 ^ 52, 2 ^ 53)\<close> and rounded to an integer.
\<close>

function round53 :: "nat \<Rightarrow> nat \<Rightarrow> int \<Rightarrow> double" where
  "round53 p q e =
     (if p = 0 \<or> q = 0 then Double 0 0
      else if p < 4503599627370496 * q then round53 (2 * p) q (e - 1)
      else if 9007199254740992 * q \<le> p then round53 p (2 * q) (e + 1)
      else Double (nearest_even p q) e)"
  by pat_completeness auto
termination
  by (relation "measure (\<lambda>(p, q, e). (4503599627370496 * q - p) + (p + 1 - 9007199254740992 * q))")
     auto

declare round53.simps [simp del]

text \<open>
  \<^verbatim>\<open>a / b\<close> for two array lengths (exact as doubles) with \<open>b\<close> positive, and \<^verbatim>\<open>x * n\<close>
  for a double and a small integer.
\<close>

definition js_div :: "nat \<Rightarrow> nat \<Rightarrow> double" where
  "js_div a b = round53 a b 0"

fun js_mul :: "double \<Rightarrow> nat \<Rightarrow> double" where
  "js_mul (Double m e) n = round53 (m * n) 1 e"

text \<open>\<^verbatim>\<open>Math.round\<close>: the nearest integer, a tie going up.\<close>

fun Math_round :: "double \<Rightarrow> int" where
  "Math_round (Double m e) =
     (if 0 \<le> e then int (m * 2 ^ nat e)
      else int ((2 * m + 2 ^ nat (- e)) div 2 ^ (nat (- e) + 1)))"

section \<open>GET /api/reports/coach\<close>

text \<open>
  The instants the handler computes from the clock with the calendar arithmetic of
  \<^verbatim>\<open>Date\<close> (\<^verbatim>\<open>setDate(getDate() - 30)\<close> and so on, in local time), taken as inputs.
\<close>

record clock =
  time_now :: int
  thirtyDaysAgo :: int
  sevenDaysAgo :: int
  sevenDaysFromNow :: int

record kpis =
  achievementsApproved :: nat
  achievementsPending :: nat
  regPending :: nat
  regConfirmed :: nat
  upcomingSessions7d :: nat
  activePlayersThisWeek :: nat
  attendanceRatePct :: "int option"

text \<open>The relation filter \<^verbatim>\<open>{ sport: coach.sport, role: "Player" }\<close> on a user id.\<close>

definition player_of_sport :: "store \<Rightarrow> string \<Rightarrow> string \<Rightarrow> bool" where
  "player_of_sport s sp u =
     (case users s u of
        None \<Rightarrow> False
      | Some p \<Rightarrow> user_sport p = Some sp \<and> role p = ''Player'')"

text \<open>The relation filter \<^verbatim>\<open>schedule: { coachId: coach.id }\<close> on a schedule request.\<close>

definition under_coach :: "store \<Rightarrow> string \<Rightarrow> scheduleRequest \<Rightarrow> bool" where
  "under_coach s c r =
     (case find (\<lambda>x. sched_id x = scheduleId r) (schedules s) of
        None \<Rightarrow> False
      | Some x \<Rightarrow> coachId x = c)"

definition requests_since :: "store \<Rightarrow> string \<Rightarrow> int \<Rightarrow> scheduleRequest list" where
  "requests_since s c t =
     filter (\<lambda>r. under_coach s c r \<and> t \<le> req_createdAt r) (scheduleRequests s)"

definition attendance_rate :: "scheduleRequest list \<Rightarrow> int option" where
  "attendance_rate rs =
     (if 0 < length rs
      then Some (Math_round
             (js_mul (js_div (length (filter (\<lambda>r. req_status r = ''APPROVED'') rs)) (length rs))
                100))
      else None)"

definition coach_kpis :: "store \<Rightarrow> clock \<Rightarrow> user \<Rightarrow> string \<Rightarrow> kpis" where
  "coach_kpis s t coach sp =
     \<lparr> achievementsApproved =
         length (filter (\<lambda>a. player_of_sport s sp (ownerId a) \<and> status a = ''APPROVED'')
           (achievements s)),
       achievementsPending =
         length (filter (\<lambda>a. player_of_sport s sp (ownerId a) \<and> status a = ''PENDING'')
           (achievements s)),
       regPending =
         length (filter (\<lambda>r. player_of_sport s sp (reg_playerId r) \<and> regStatus r = ''PENDING'')
           (registrations s)),
       regConfirmed =
         length (filter (\<lambda>r. player_of_sport s sp (reg_playerId r) \<and> regStatus r = ''CONFIRMED'')
           (registrations s)),
       upcomingSessions7d =
         length (filter (\<lambda>x. coachId x = user_id coach \<and> time_now t \<le> sched_date x \<and>
                              sched_date x \<le> sevenDaysFromNow t) (schedules s)),
       activePlayersThisWeek =
         length (remdups (map playerId (requests_since s (user_id coach) (sevenDaysAgo t)))),
       attendanceRatePct =
         attendance_rate (requests_since s (user_id coach) (thirtyDaysAgo t)) \<rparr>"

definition coach_report :: "store \<Rightarrow> clock \<Rightarrow> string \<Rightarrow> kpis reply" where
  "coach_report s t caller =
     (case users s caller of
        None \<Rightarrow> Failure 403 ''Forbidden''
      | Some coach \<Rightarrow>
          if role coach \<noteq> ''Coach'' then Failure 403 ''Forbidden''
          else (case user_sport coach of
             None \<Rightarrow> Failure 403 ''Forbidden''
           | Some sp \<Rightarrow>
               if sp = [] then Failure 403 ''Forbidden''
               else Reply 200 (coach_kpis s t coach sp)))"

section \<open>The invariant of the decision reason\<close>

text \<open>A record carries a decision reason only if its status is REJECTED.\<close>

definition reason_only_if_rejected :: "achievement \<Rightarrow> bool" where
  "reason_only_if_rejected a = (decisionReason a = None \<or> status a = ''REJECTED'')"

section \<open>The attendance rate as specified\<close>

text \<open>
  The rate in the words of the specification, \<open>round (100 * approved / total)\<close>, over the
  rationals: the nearest integer, a tie going up.
\<close>

definition rate_as_specified :: "nat \<Rightarrow> nat \<Rightarrow> int" where
  "rate_as_specified a n = round (100 * rat_of_nat a / rat_of_nat n)"

section \<open>Example data\<close>

definition coachC :: user where
  "coachC = \<lparr> user_id = ''C'', username = ''carol'', role = ''Coach'',
     user_sport = Some ''cricket'' \<rparr>"

definition coachF :: user where
  "coachF = \<lparr> user_id = ''F'', username = ''frank'', role = ''Coach'',
     user_sport = Some ''football'' \<rparr>"

definition playerP :: user where
  "playerP = \<lparr> user_id = ''P'', username = ''pat'', role = ''Player'',
     user_sport = Some ''cricket'' \<rparr>"

definition playerQ :: user where
  "playerQ = \<lparr> user_id = ''Q'', username = ''quinn'', role = ''Player'',
     user_sport = Some ''cricket'' \<rparr>"

definition ach1 :: achievement where
  "ach1 = \<lparr> ach_id = ''a1'', ownerId = ''P'', title = ''State Champion'',
     date = 1704844800000,
     description = None, proof_ref = None, sport = ''cricket'', venue = ''Delhi'',
     status = ''PENDING'', decisionReason = None, verifiedById = None,
     verifiedByName = None, verifiedAt = None, createdAt = 100, updatedAt = 100 \<rparr>"

text \<open>The status column of the examples: the enumeration of the three values.\<close>

definition three_statuses :: "string \<Rightarrow> bool" where
  "three_statuses d = (d = ''PENDING'' \<or> d = ''APPROVED'' \<or> d = ''REJECTED'')"

definition store1 :: store where
  "store1 = \<lparr> status_column = three_statuses,
     users = [''C'' \<mapsto> coachC, ''F'' \<mapsto> coachF, ''P'' \<mapsto> playerP, ''Q'' \<mapsto> playerQ],
     achievements = [ach1], schedules = [], scheduleRequests = [],
     registrations = [] \<rparr>"

definition achA :: achievement where
  "achA = ach1\<lparr> status := ''APPROVED'', verifiedById := Some ''C'',
     verifiedByName := Some ''carol'', verifiedAt := Some 200 \<rparr>"

definition achR :: achievement where
  "achR = ach1\<lparr> status := ''REJECTED'', decisionReason := Some ''late'',
     verifiedById := Some ''C'', verifiedByName := Some ''carol'', verifiedAt := Some 200 \<rparr>"

definition storeA :: store where
  "storeA = store1\<lparr> achievements := [achA] \<rparr>"

definition storeR :: store where
  "storeR = store1\<lparr> achievements := [achR] \<rparr>"

definition body1 :: update_body where
  "body1 = \<lparr> b_title = JString ''District Champion'', b_sport = JString ''cricket'',
     b_date = DString ''2024-01-11'' (ValidDate 1704931200000), b_venue = JString ''Delhi'',
     b_description = JUndefined \<rparr>"

definition store0 :: store where
  "store0 = store1\<lparr> achievements := [] \<rparr>"

definition cbody1 :: create_body where
  "cbody1 = \<lparr> c_title = JString ''State Champion'',
     c_date = DString ''2024-01-10'' (ValidDate 1704844800000), c_description = JUndefined,
     c_proof = JUndefined, c_sport = JString ''cricket'', c_venue = JString ''Delhi'' \<rparr>"

definition ach2 :: achievement where
  "ach2 = ach1\<lparr> ach_id := ''a2'', ownerId := ''Q'', title := ''Best Bowler'', createdAt := 300,
     updatedAt := 300 \<rparr>"

definition ach3 :: achievement where
  "ach3 = ach1\<lparr> ach_id := ''a3'', sport := ''football'', createdAt := 200, updatedAt := 200 \<rparr>"

definition ach4 :: achievement where
  "ach4 = achA\<lparr> ach_id := ''a4'', createdAt := 400, updatedAt := 400 \<rparr>"

definition store2 :: store where
  "store2 = store1\<lparr> achievements := [ach1, ach2, ach3, ach4] \<rparr>"

definition session1 :: schedule where
  "session1 = \<lparr> sched_id = ''s1'', coachId = ''C'', sched_date = 3100000000 \<rparr>"

definition requestA :: scheduleRequest where
  "requestA = \<lparr> scheduleId = ''s1'', playerId = ''P'', req_status = ''APPROVED'',
     req_createdAt = 2900000000 \<rparr>"

definition requestP :: scheduleRequest where
  "requestP = \<lparr> scheduleId = ''s1'', playerId = ''Q'', req_status = ''PENDING'',
     req_createdAt = 2900000000 \<rparr>"

text \<open>Forty requests in the last thirty days, twenty-three of them approved.\<close>

definition store3 :: store where
  "store3 = store1\<lparr> schedules := [session1],
     scheduleRequests := replicate 23 requestA @ replicate 17 requestP \<rparr>"

definition clock3 :: clock where
  "clock3 = \<lparr> time_now = 3000000000, thirtyDaysAgo = 408000000,
     sevenDaysAgo = 2395200000, sevenDaysFromNow = 3604800000 \<rparr>"

section \<open>Verification is scoped to the coach's sport\<close>

text \<open>
  C1.  Whenever the achievement exists and the caller has no user row, is not a Coach, has
  no sport set, or has a sport other than the achievement's, Verify answers 403 Forbidden
  (the authorization failure) and the store is returned as it was.  In particular Verify
  never succeeds on a sport mismatch.
\<close>

theorem verify_forbidden:
  assumes "findUnique (achievements s) i = Some a"
    and "\<not> coach_with_sport (users s caller) \<or>
         (\<exists>c. users s caller = Some c \<and> user_sport c \<noteq> Some (sport a))"
  shows "verify s now caller i decision reason \<in>
           {(Failure 403 ''Forbidden: Not a coach'', s),
            (Failure 403 ''Forbidden: Cannot verify achievement for a different sport'', s)}"
proof (cases "users s caller")
  case None
  then show ?thesis by (simp add: verify_def)
next
  case (Some c)
  show ?thesis
  proof (cases "coach_with_sport (Some c)")
    case False
    with Some show ?thesis by (simp add: verify_def)
  next
    case True
    with Some assms(2) have "Some (sport a) \<noteq> user_sport c" by auto
    with Some True assms(1) show ?thesis by (simp add: verify_def)
  qed
qed

theorem verify_forbidden_witness:
  "verify store1 200 ''F'' ''a1'' (JString ''APPROVED'') JUndefined =
     (Failure 403 ''Forbidden: Cannot verify achievement for a different sport'', store1)"
proof -
  have f: "findUnique (achievements store1) ''a1'' = Some ach1"
    by (simp add: findUnique_def store1_def ach1_def)
  have m: "\<not> coach_with_sport (users store1 ''F'') \<or>
      (\<exists>c. users store1 ''F'' = Some c \<and> user_sport c \<noteq> Some (sport ach1))"
    by (simp add: store1_def coachF_def ach1_def)
  have c: "coach_with_sport (users store1 ''F'')"
    by (simp add: store1_def coachF_def)
  have "verify store1 200 ''F'' ''a1'' (JString ''APPROVED'') JUndefined \<noteq>
      (Failure 403 ''Forbidden: Not a coach'', store1)"
    using c f by (simp add: verify_def store1_def coachF_def ach1_def split: option.splits)
  with verify_forbidden [OF f m, of 200 "JString ''APPROVED''" JUndefined]
  show ?thesis by auto
qed

section \<open>Facts about the store client\<close>

lemma findUnique_id: "findUnique rows i = Some a \<Longrightarrow> ach_id a = i"
  by (auto simp: findUnique_def find_Some_iff)

lemma findUnique_mem: "findUnique rows i = Some a \<Longrightarrow> a \<in> set rows"
  by (auto simp: findUnique_def find_Some_iff)

lemma findUnique_replace_row:
  "findUnique rows i = Some a \<Longrightarrow> ach_id r = i \<Longrightarrow> findUnique (replace_row i r rows) i = Some r"
  by (induction rows) (auto simp: findUnique_def)

lemma ach_id_apply_patch: "ach_id (apply_patch p a) = ach_id a"
  by (simp add: apply_patch_def)

lemma valid_verify_data:
  "valid_patch col (verify_data coach decision reason t) \<longleftrightarrow>
     status_ok col decision \<and> (decision = JString ''REJECTED'' \<longrightarrow> nullable_ok reason)"
  by (simp add: valid_patch_def verify_data_def no_patch_def)

lemma status_verify_data:
  "status (apply_patch (verify_data coach (JString d) reason t) a) = d"
  by (simp add: apply_patch_def verify_data_def no_patch_def)

lemma verify_success:
  assumes "users s caller = Some coach" and "coach_with_sport (Some coach)"
    and "findUnique (achievements s) i = Some a" and "user_sport coach = Some (sport a)"
    and "valid_patch (status_column s) (verify_data coach decision reason t)"
  shows "verify s t caller i decision reason =
    (Reply 200 (apply_patch (verify_data coach decision reason t) a),
     s\<lparr>achievements :=
         replace_row i (apply_patch (verify_data coach decision reason t) a) (achievements s)\<rparr>)"
  using assms by (simp add: verify_def achievement_update_def)

lemma verify_rejected_by_store:
  assumes "users s caller = Some coach" and "coach_with_sport (Some coach)"
    and "findUnique (achievements s) i = Some a" and "user_sport coach = Some (sport a)"
    and "\<not> valid_patch (status_column s) (verify_data coach decision reason t)"
  shows "verify s t caller i decision reason = (Failure 500 ''Server error'', s)"
  using assms by (simp add: verify_def achievement_update_def)

lemma example_status:
  "status_column store1 = three_statuses" "status_column storeA = three_statuses"
  "status_column storeR = three_statuses" "status_column store0 = three_statuses"
  by (simp_all add: store1_def storeA_def storeR_def store0_def)

lemma three_statuses_values:
  "three_statuses ''PENDING''" "three_statuses ''APPROVED''" "three_statuses ''REJECTED''"
  "\<not> three_statuses ''ON_HOLD''"
  by (simp_all add: three_statuses_def)

lemma store1_users:
  "users store1 ''C'' = Some coachC" "users store1 ''F'' = Some coachF"
  "users store1 ''P'' = Some playerP" "users store1 ''Q'' = Some playerQ"
  "users store1 ''Z'' = None"
  by (simp_all add: store1_def)

lemma example_rows:
  "findUnique (achievements store1) ''a1'' = Some ach1"
  "findUnique (achievements storeA) ''a1'' = Some achA"
  "findUnique (achievements storeR) ''a1'' = Some achR"
  "findUnique (achievements store1) ''a2'' = None"
  by (simp_all add: findUnique_def store1_def storeA_def storeR_def ach1_def achA_def achR_def)

section \<open>Verification does not look at the current status\<close>

text \<open>
  C10 (as amended).  For a Coach whose sport is set and equals the achievement's, the
  handler tests neither the current status of the record nor the decision: whether Verify
  succeeds is decided by the store alone.  When the store accepts the decision string for
  the status column and, if the decision is REJECTED, accepts the reason for the
  decisionReason column (no reason, null, a string, or either of the two as
  \<^verbatim>\<open>{ set: v }\<close>), the answer is 200 with the updated record, the record is stored,
  and its status is exactly the decision string, whatever the status was before.
  Otherwise the answer is 500 "Server error" and the store is as it was.
\<close>

theorem verify_accepts_any_decision:
  assumes "users s caller = Some coach" and "role coach = ''Coach''"
    and "truthy_col (user_sport coach)"
    and "findUnique (achievements s) i = Some a" and "user_sport coach = Some (sport a)"
  shows "(status_column s d \<and> (d = ''REJECTED'' \<longrightarrow> nullable_ok reason) \<longrightarrow>
            (\<exists>a'. verify s t caller i (JString d) reason =
                (Reply 200 a', s\<lparr>achievements := replace_row i a' (achievements s)\<rparr>) \<and>
              findUnique (replace_row i a' (achievements s)) i = Some a' \<and>
              status a' = d)) \<and>
         (\<not> (status_column s d \<and> (d = ''REJECTED'' \<longrightarrow> nullable_ok reason)) \<longrightarrow>
            verify s t caller i (JString d) reason = (Failure 500 ''Server error'', s))"
proof (intro conjI impI)
  let ?a = "apply_patch (verify_data coach (JString d) reason t) a"
  from assms(2,3) have c: "coach_with_sport (Some coach)" by simp
  {
    assume "status_column s d \<and> (d = ''REJECTED'' \<longrightarrow> nullable_ok reason)"
    then have v: "valid_patch (status_column s) (verify_data coach (JString d) reason t)"
      by (simp add: valid_verify_data)
    have "verify s t caller i (JString d) reason =
        (Reply 200 ?a, s\<lparr>achievements := replace_row i ?a (achievements s)\<rparr>)"
      by (rule verify_success [OF assms(1) c assms(4,5) v])
    moreover have "ach_id ?a = i"
      using findUnique_id [OF assms(4)] by (simp add: ach_id_apply_patch)
    then have "findUnique (replace_row i ?a (achievements s)) i = Some ?a"
      using findUnique_replace_row [OF assms(4)] by simp
    moreover have "status ?a = d" by (rule status_verify_data)
    ultimately show "\<exists>a'. verify s t caller i (JString d) reason =
          (Reply 200 a', s\<lparr>achievements := replace_row i a' (achievements s)\<rparr>) \<and>
        findUnique (replace_row i a' (achievements s)) i = Some a' \<and>
        status a' = d"
      by blast
  }
  {
    assume "\<not> (status_column s d \<and> (d = ''REJECTED'' \<longrightarrow> nullable_ok reason))"
    then have "\<not> valid_patch (status_column s) (verify_data coach (JString d) reason t)"
      by (simp add: valid_verify_data)
    then show "verify s t caller i (JString d) reason = (Failure 500 ''Server error'', s)"
      by (rule verify_rejected_by_store [OF assms(1) c assms(4,5)])
  }
qed

theorem verify_accepts_any_decision_witness:
  "status achA = ''APPROVED'' \<and>
   (\<exists>a'. verify storeA 300 ''C'' ''a1'' (JString ''PENDING'') JUndefined =
       (Reply 200 a', storeA\<lparr>achievements := replace_row ''a1'' a' (achievements storeA)\<rparr>) \<and>
     findUnique (replace_row ''a1'' a' (achievements storeA)) ''a1'' = Some a' \<and>
     status a' = ''PENDING'') \<and>
   verify storeA 300 ''C'' ''a1'' (JString ''ON_HOLD'') JUndefined =
     (Failure 500 ''Server error'', storeA)"
proof -
  have u: "users storeA ''C'' = Some coachC" by (simp add: storeA_def store1_def)
  have r: "role coachC = ''Coach''" by (simp add: coachC_def)
  have t: "truthy_col (user_sport coachC)" by (simp add: coachC_def)
  have m: "user_sport coachC = Some (sport achA)"
    by (simp add: coachC_def achA_def ach1_def)
  have "status achA = ''APPROVED''" by (simp add: achA_def)
  with verify_accepts_any_decision
         [OF u r t example_rows(2) m, where d = "''PENDING''" and reason = JUndefined and t = 300]
       verify_accepts_any_decision
         [OF u r t example_rows(2) m, where d = "''ON_HOLD''" and reason = JUndefined and t = 300]
  show ?thesis by (simp add: example_status three_statuses_values)
qed

text \<open>
  The claim as stated fails for a request that rejects with a reason that is not a string:
  the store client throws on the number, and the answer is 500 with nothing written.
\<close>

theorem verify_decision_counterexample:
  "coach_with_sport (users store1 ''C'') \<and>
   findUnique (achievements store1) ''a1'' = Some ach1 \<and>
   user_sport coachC = Some (sport ach1) \<and>
   verify store1 200 ''C'' ''a1'' (JString ''REJECTED'') (JNumber 5) =
     (Failure 500 ''Server error'', store1)"
proof -
  have c: "coach_with_sport (Some coachC)" and m: "user_sport coachC = Some (sport ach1)"
    by (simp_all add: coachC_def ach1_def)
  have "\<not> valid_patch (status_column store1)
      (verify_data coachC (JString ''REJECTED'') (JNumber 5) 200)"
    by (simp add: valid_verify_data)
  then have "verify store1 200 ''C'' ''a1'' (JString ''REJECTED'') (JNumber 5) =
      (Failure 500 ''Server error'', store1)"
    by (rule verify_rejected_by_store [OF store1_users(1) c example_rows(1) m])
  then show ?thesis using c m by (simp add: store1_users example_rows)
qed

section \<open>A missing achievement\<close>

text \<open>
  C5 (as amended).  When no record has the given id, the store is left as it is, and the
  answer depends on the caller: a Coach with a sport gets 404 "Achievement not found"
  (the not-found failure); any other caller gets 403 "Forbidden: Not a coach" (the
  authorization failure), as in the not-a-Coach and no-sport cases.
\<close>

theorem verify_missing_achievement:
  assumes "findUnique (achievements s) i = None"
  shows "verify s t caller i decision reason =
           (if coach_with_sport (users s caller)
            then Failure 404 ''Achievement not found''
            else Failure 403 ''Forbidden: Not a coach'', s)"
  using assms by (cases "users s caller") (simp_all add: verify_def)

theorem verify_missing_achievement_witness:
  "verify store1 200 ''P'' ''a2'' (JString ''APPROVED'') JUndefined =
     (Failure 403 ''Forbidden: Not a coach'', store1)"
  using verify_missing_achievement [OF example_rows(4), of 200 "''P''" "JString ''APPROVED''" JUndefined]
  by (simp add: store1_users playerP_def)

text \<open>
  The claim as stated fails for a Coach with a sport: the answer for an unknown id is 404,
  not the 403 of the authorization failures.
\<close>

theorem verify_missing_achievement_counterexample:
  "coach_with_sport (users store1 ''C'') \<and>
   findUnique (achievements store1) ''a2'' = None \<and>
   verify store1 200 ''C'' ''a2'' (JString ''APPROVED'') JUndefined =
     (Failure 404 ''Achievement not found'', store1)"
  by (simp add: verify_def store1_users example_rows coachC_def)

section \<open>Deleting an approved achievement\<close>

text \<open>
  C6.  When the owner deletes an achievement whose status is APPROVED, the answer is 403
  "Cannot delete an approved achievement." (the conflict failure) and the store is
  returned as it was: nothing is deleted and nothing else is written.
\<close>

theorem delete_approved_conflict:
  assumes "findUnique (achievements s) i = Some a" and "ownerId a = caller"
    and "status a = ''APPROVED''"
  shows "delete_achievement s caller i =
           (Failure 403 ''Cannot delete an approved achievement.'', s)"
  using assms by (simp add: delete_achievement_def)

theorem delete_approved_conflict_witness:
  "delete_achievement storeA ''P'' ''a1'' =
     (Failure 403 ''Cannot delete an approved achievement.'', storeA)"
proof -
  have "ownerId achA = ''P''" and "status achA = ''APPROVED''"
    by (simp_all add: achA_def ach1_def)
  then show ?thesis by (rule delete_approved_conflict [OF example_rows(2)])
qed

section \<open>Existence is not leaked\<close>

text \<open>
  C7.  Take a store \<open>s1\<close> with no record of the given id and a store \<open>s2\<close> where the
  record exists but belongs to somebody else.  Update answers the same in both, Delete
  answers the same in both, and all four answers are 404 "Achievement not found or
  unauthorized"; neither store is changed.
\<close>

theorem not_found_or_not_owner:
  assumes "findUnique (achievements s1) i = None"
    and "findUnique (achievements s2) i = Some a" and "ownerId a \<noteq> caller"
  shows "update_achievement s1 t1 caller i body =
           (Failure 404 ''Achievement not found or unauthorized'', s1) \<and>
         update_achievement s2 t2 caller i body =
           (Failure 404 ''Achievement not found or unauthorized'', s2) \<and>
         delete_achievement s1 caller i =
           (Failure 404 ''Achievement not found or unauthorized'', s1) \<and>
         delete_achievement s2 caller i =
           (Failure 404 ''Achievement not found or unauthorized'', s2)"
  using assms by (simp add: update_achievement_def delete_achievement_def)

theorem not_found_or_not_owner_witness:
  "fst (update_achievement store0 300 ''Q'' ''a1'' body1) =
     fst (update_achievement store1 300 ''Q'' ''a1'' body1) \<and>
   fst (delete_achievement store0 ''Q'' ''a1'') = fst (delete_achievement store1 ''Q'' ''a1'') \<and>
   snd (update_achievement store1 300 ''Q'' ''a1'' body1) = store1 \<and>
   snd (delete_achievement store1 ''Q'' ''a1'') = store1"
proof -
  have o: "ownerId ach1 \<noteq> ''Q''" by (simp add: ach1_def)
  have n: "findUnique (achievements store0) ''a1'' = None"
    by (simp add: store0_def findUnique_def)
  from not_found_or_not_owner [OF n example_rows(1) o, of 300 body1 300]
  show ?thesis by simp
qed

section \<open>What an owner's edit leaves alone\<close>

lemma findUnique_replace_row_other:
  "ach_id r = i \<Longrightarrow> j \<noteq> i \<Longrightarrow> findUnique (replace_row i r rows) j = findUnique rows j"
  by (induction rows) (auto simp: findUnique_def)


lemma update_data_keeps:
  "status (apply_patch (update_data body t) a) = status a"
  "ownerId (apply_patch (update_data body t) a) = ownerId a"
  "decisionReason (apply_patch (update_data body t) a) = decisionReason a"
  "verifiedById (apply_patch (update_data body t) a) = verifiedById a"
  "verifiedByName (apply_patch (update_data body t) a) = verifiedByName a"
  "verifiedAt (apply_patch (update_data body t) a) = verifiedAt a"
  by (simp_all add: apply_patch_def update_data_def no_patch_def)


lemma update_rows:
  "achievements (snd (update_achievement s t caller i body)) = achievements s \<or>
   (\<exists>a. findUnique (achievements s) i = Some a \<and>
     achievements (snd (update_achievement s t caller i body)) =
       replace_row i (apply_patch (update_data body t) a) (achievements s))"
  by (auto simp: update_achievement_def achievement_update_def split: option.splits)

lemma update_keeps:
  assumes "findUnique (achievements s) j = Some a"
  shows "\<exists>a'. findUnique (achievements (snd (update_achievement s t caller i body))) j = Some a' \<and>
           status a' = status a \<and> ownerId a' = ownerId a \<and>
           decisionReason a' = decisionReason a \<and> verifiedById a' = verifiedById a \<and>
           verifiedByName a' = verifiedByName a \<and> verifiedAt a' = verifiedAt a"
proof -
  let ?rows = "achievements (snd (update_achievement s t caller i body))"
  from update_rows [of s t caller i body] consider
      (same) "?rows = achievements s"
    | (written) b where "findUnique (achievements s) i = Some b"
        and "?rows = replace_row i (apply_patch (update_data body t) b) (achievements s)"
    by blast
  then show ?thesis
  proof cases
    case same
    with assms show ?thesis by simp
  next
    case written
    let ?b = "apply_patch (update_data body t) b"
    have id: "ach_id ?b = i"
      using findUnique_id [OF written(1)] by (simp add: ach_id_apply_patch)
    show ?thesis
    proof (cases "j = i")
      case True
      with assms written(1) have "b = a" by simp
      moreover have "findUnique ?rows j = Some ?b"
        using findUnique_replace_row [OF written(1) id] written(2) True by simp
      ultimately show ?thesis by (simp add: update_data_keeps)
    next
      case False
      then have "findUnique ?rows j = Some a"
        using findUnique_replace_row_other [OF id, of j "achievements s"] written(2) assms
        by simp
      then show ?thesis by simp
    qed
  qed
qed

section \<open>An approved achievement and its owner\<close>






section \<open>What a successful verification writes\<close>

lemma verify_data_writes:
  "status (apply_patch (verify_data coach (JString d) reason t) a) = d"
  "decisionReason (apply_patch (verify_data coach (JString d) reason t) a) =
     (if d = ''REJECTED'' then set_nullable reason (decisionReason a) else None)"
  "verifiedById (apply_patch (verify_data coach decision reason t) a) = Some (user_id coach)"
  "verifiedByName (apply_patch (verify_data coach decision reason t) a) = Some (username coach)"
  "verifiedAt (apply_patch (verify_data coach decision reason t) a) = Some t"
  by (simp_all add: apply_patch_def verify_data_def no_patch_def)

lemma verify_replyD:
  assumes "verify s t caller i decision reason = (Reply n a', s')"
  shows "\<exists>coach a. users s caller = Some coach \<and> coach_with_sport (Some coach) \<and>
           findUnique (achievements s) i = Some a \<and> user_sport coach = Some (sport a) \<and>
           valid_patch (status_column s) (verify_data coach decision reason t) \<and> n = 200 \<and>
           a' = apply_patch (verify_data coach decision reason t) a \<and>
           s' = s\<lparr>achievements := replace_row i a' (achievements s)\<rparr>"
  using assms
  by (auto simp: verify_def achievement_update_def split: option.splits if_splits)

lemma set_nullable_cases:
  "set_nullable r old =
     (case r of
        JString x \<Rightarrow> Some x
      | JNull \<Rightarrow> None
      | JSet (JString x) \<Rightarrow> Some x
      | JSet JNull \<Rightarrow> None
      | _ \<Rightarrow> old)"
  by (induction r old rule: set_nullable.induct) simp_all

text \<open>
  C4 (as amended).  A successful Verify with the decision string \<open>d\<close> answers 200 with
  the stored record, whose status is \<open>d\<close>, whose verifiedById, verifiedByName and
  verifiedAt are the acting coach's id, the coach's username and the current time, and
  whose decisionReason is null when \<open>d\<close> is not REJECTED; when \<open>d\<close> is REJECTED it is the
  reason of the request if the request has one (a string, or null, plain or as
  \<^verbatim>\<open>{ set: v }\<close>), and the decisionReason the record had before if the request has no
  reason; with any other reason a rejection does not succeed.  An owner's Update, whatever
  it answers, leaves verifiedById, verifiedByName and verifiedAt of every record as they
  were.
\<close>

theorem verify_writes_decision_and_stamp:
  "(verify s t caller i (JString d) reason = (Reply n a', s') \<longrightarrow>
      (\<exists>coach a. users s caller = Some coach \<and> findUnique (achievements s) i = Some a \<and>
         n = 200 \<and> findUnique (achievements s') i = Some a' \<and>
         status a' = d \<and>
         decisionReason a' =
           (if d = ''REJECTED''
            then (case reason of
                    JString x \<Rightarrow> Some x
                  | JNull \<Rightarrow> None
                  | JSet (JString x) \<Rightarrow> Some x
                  | JSet JNull \<Rightarrow> None
                  | _ \<Rightarrow> decisionReason a)
            else None) \<and>
         (d = ''REJECTED'' \<longrightarrow> nullable_ok reason) \<and>
         verifiedById a' = Some (user_id coach) \<and>
         verifiedByName a' = Some (username coach) \<and>
         verifiedAt a' = Some t)) \<and>
   (findUnique (achievements u) j = Some b \<longrightarrow>
      (\<exists>b'. findUnique (achievements (snd (update_achievement u t2 owner k body))) j = Some b' \<and>
         verifiedById b' = verifiedById b \<and> verifiedByName b' = verifiedByName b \<and>
         verifiedAt b' = verifiedAt b))"
proof (intro conjI impI)
  assume ok: "verify s t caller i (JString d) reason = (Reply n a', s')"
  from verify_replyD [OF ok] obtain coach a where
    c: "users s caller = Some coach" and f: "findUnique (achievements s) i = Some a" and
    v: "valid_patch (status_column s) (verify_data coach (JString d) reason t)" and
    n: "n = 200" and a': "a' = apply_patch (verify_data coach (JString d) reason t) a" and
    s': "s' = s\<lparr>achievements := replace_row i a' (achievements s)\<rparr>"
    by blast
  have "ach_id a' = i"
    using findUnique_id [OF f] a' by (simp add: ach_id_apply_patch)
  then have stored: "findUnique (achievements s') i = Some a'"
    using findUnique_replace_row [OF f] s' by simp
  have reason: "decisionReason a' =
      (if d = ''REJECTED''
       then (case reason of
               JString x \<Rightarrow> Some x
             | JNull \<Rightarrow> None
             | JSet (JString x) \<Rightarrow> Some x
             | JSet JNull \<Rightarrow> None
             | _ \<Rightarrow> decisionReason a)
       else None)"
    unfolding a' verify_data_writes(2) set_nullable_cases [of reason "decisionReason a"] ..
  have accepted: "d = ''REJECTED'' \<longrightarrow> nullable_ok reason"
    using v by (simp add: valid_verify_data)
  have stamp: "status a' = d" "verifiedById a' = Some (user_id coach)"
    "verifiedByName a' = Some (username coach)" "verifiedAt a' = Some t"
    unfolding a' by (simp_all add: verify_data_writes)
  show "\<exists>coach a. users s caller = Some coach \<and> findUnique (achievements s) i = Some a \<and>
         n = 200 \<and> findUnique (achievements s') i = Some a' \<and>
         status a' = d \<and>
         decisionReason a' =
           (if d = ''REJECTED''
            then (case reason of
                    JString x \<Rightarrow> Some x
                  | JNull \<Rightarrow> None
                  | JSet (JString x) \<Rightarrow> Some x
                  | JSet JNull \<Rightarrow> None
                  | _ \<Rightarrow> decisionReason a)
            else None) \<and>
         (d = ''REJECTED'' \<longrightarrow> nullable_ok reason) \<and>
         verifiedById a' = Some (user_id coach) \<and>
         verifiedByName a' = Some (username coach) \<and>
         verifiedAt a' = Some t"
    using c f n stored reason accepted stamp by blast
next
  assume "findUnique (achievements u) j = Some b"
  from update_keeps [OF this, of t2 owner k body]
  show "\<exists>b'. findUnique (achievements (snd (update_achievement u t2 owner k body))) j = Some b' \<and>
      verifiedById b' = verifiedById b \<and> verifiedByName b' = verifiedByName b \<and>
      verifiedAt b' = verifiedAt b"
    by blast
qed

lemma verify_store1_approved:
  "verify store1 200 ''C'' ''a1'' (JString ''APPROVED'') JUndefined =
     (Reply 200 achA, storeA)"
proof -
  have c: "coach_with_sport (Some coachC)" and m: "user_sport coachC = Some (sport ach1)"
    by (simp_all add: coachC_def ach1_def)
  have a: "apply_patch (verify_data coachC (JString ''APPROVED'') JUndefined 200) ach1 = achA"
    by (simp add: apply_patch_def verify_data_def no_patch_def achA_def ach1_def coachC_def)
  have "replace_row ''a1'' achA (achievements store1) = [achA]"
    by (simp add: store1_def ach1_def)
  then show ?thesis
    using verify_success [OF store1_users(1) c example_rows(1) m,
        where decision = "JString ''APPROVED''" and t = 200 and reason = JUndefined]
    by (simp add: a storeA_def valid_verify_data example_status three_statuses_values)
qed

theorem verify_writes_decision_and_stamp_witness:
  "status achA = ''APPROVED'' \<and> decisionReason achA = None \<and>
   verifiedById achA = Some (user_id coachC) \<and> verifiedByName achA = Some (username coachC) \<and>
   verifiedAt achA = Some 200 \<and>
   (\<exists>b'. findUnique (achievements (snd (update_achievement storeA 300 ''P'' ''a1'' body1))) ''a1''
            = Some b' \<and>
      verifiedById b' = Some ''C'' \<and> verifiedByName b' = Some ''carol'' \<and>
      verifiedAt b' = Some 200)"
proof -
  have v: "verifiedById achA = Some ''C''" "verifiedByName achA = Some ''carol''"
    "verifiedAt achA = Some 200"
    by (simp_all add: achA_def)
  from verify_writes_decision_and_stamp
    [where s = store1 and t = 200 and caller = "''C''" and i = "''a1''" and d = "''APPROVED''"
       and reason = JUndefined and n = 200 and a' = achA and s' = storeA
       and u = storeA and j = "''a1''" and b = achA and ?t2.0 = 300 and owner = "''P''"
       and k = "''a1''" and body = body1]
  show ?thesis
    apply (simp only: verify_store1_approved store1_users example_rows)
    apply (simp add: v)
    apply (auto simp: storeA_def)
    done
qed

text \<open>
  The claim as stated fails when a record that was rejected with a reason is rejected
  again by a request that carries no reason: the stored decisionReason is not the (absent)
  reason of the request but the one of the earlier rejection.
\<close>

theorem verify_reason_counterexample:
  "decisionReason achR = Some ''late'' \<and>
   verify storeR 300 ''C'' ''a1'' (JString ''REJECTED'') JUndefined =
     (Reply 200 (achR\<lparr>verifiedAt := Some 300\<rparr>),
      storeR\<lparr>achievements := [achR\<lparr>verifiedAt := Some 300\<rparr>]\<rparr>) \<and>
   decisionReason (achR\<lparr>verifiedAt := Some 300\<rparr>) = Some ''late''"
proof -
  have u: "users storeR ''C'' = Some coachC" by (simp add: storeR_def store1_def)
  have c: "coach_with_sport (Some coachC)" and m: "user_sport coachC = Some (sport achR)"
    by (simp_all add: coachC_def achR_def ach1_def)
  have a: "apply_patch (verify_data coachC (JString ''REJECTED'') JUndefined 300) achR =
      achR\<lparr>verifiedAt := Some 300\<rparr>"
    by (simp add: apply_patch_def verify_data_def no_patch_def achR_def ach1_def coachC_def)
  have r: "replace_row ''a1'' x (achievements storeR) = [x]" for x
    by (simp add: storeR_def achR_def ach1_def)
  have "decisionReason achR = Some ''late''" by (simp add: achR_def)
  then show ?thesis
    using verify_success [OF u c example_rows(3) m,
        where decision = "JString ''REJECTED''" and t = 300 and reason = JUndefined]
    by (simp add: a r valid_verify_data example_status three_statuses_values)
qed

section \<open>The decision reason over the lifecycle\<close>

lemma verify_data_reason:
  "reason_only_if_rejected (apply_patch (verify_data coach decision reason t) a)"
  by (cases "decision = JString ''REJECTED''")
     (simp_all add: reason_only_if_rejected_def apply_patch_def verify_data_def no_patch_def)

lemma update_data_reason:
  "reason_only_if_rejected a \<Longrightarrow> reason_only_if_rejected (apply_patch (update_data body t) a)"
  by (simp add: reason_only_if_rejected_def update_data_keeps)

lemma new_row_reason: "reason_only_if_rejected (new_row new_id t caller body d)"
  by (simp add: reason_only_if_rejected_def new_row_def)

lemma list_all_replace_row:
  "list_all P rows \<Longrightarrow> P r \<Longrightarrow> list_all P (replace_row i r rows)"
  by (induction rows) auto

lemma list_all_delete_row: "list_all P rows \<Longrightarrow> list_all P (delete_row i rows)"
  by (induction rows) auto

lemma verify_rows:
  "achievements (snd (verify s t caller i decision reason)) = achievements s \<or>
   (\<exists>coach a. achievements (snd (verify s t caller i decision reason)) =
       replace_row i (apply_patch (verify_data coach decision reason t) a) (achievements s))"
  by (auto simp: verify_def achievement_update_def split: option.splits)

lemma create_rows:
  "achievements (snd (create_achievement s t new_id caller body)) = achievements s \<or>
   (\<exists>d. achievements (snd (create_achievement s t new_id caller body)) =
       achievements s @ [new_row new_id t caller body d])"
  by (auto simp: create_achievement_def split: jsdate.splits)

lemma delete_rows:
  "achievements (snd (delete_achievement s caller i)) = achievements s \<or>
   achievements (snd (delete_achievement s caller i)) = delete_row i (achievements s)"
  by (auto simp: delete_achievement_def split: option.splits)

lemma step_reason:
  assumes "list_all reason_only_if_rejected (achievements s)"
  shows "list_all reason_only_if_rejected (achievements (step s x))"
proof (cases x)
  case (OpCreate t new_id caller body)
  with create_rows [of s t new_id caller body] assms show ?thesis
    by (auto simp: new_row_reason)
next
  case (OpUpdate t caller i body)
  from update_rows [of s t caller i body] show ?thesis
  proof
    assume "achievements (snd (update_achievement s t caller i body)) = achievements s"
    with OpUpdate assms show ?thesis by simp
  next
    assume "\<exists>a. findUnique (achievements s) i = Some a \<and>
      achievements (snd (update_achievement s t caller i body)) =
        replace_row i (apply_patch (update_data body t) a) (achievements s)"
    then obtain a where f: "findUnique (achievements s) i = Some a"
      and r: "achievements (snd (update_achievement s t caller i body)) =
        replace_row i (apply_patch (update_data body t) a) (achievements s)"
      by blast
    from findUnique_mem [OF f] assms have "reason_only_if_rejected a"
      by (simp add: list_all_iff)
    then have "reason_only_if_rejected (apply_patch (update_data body t) a)"
      by (rule update_data_reason)
    with assms r OpUpdate show ?thesis by (simp add: list_all_replace_row)
  qed
next
  case (OpDelete caller i)
  with delete_rows [of s caller i] assms show ?thesis
    by (auto simp: list_all_delete_row)
next
  case (OpVerify t caller i decision reason)
  with verify_rows [of s t caller i decision reason] assms show ?thesis
    by (auto simp: list_all_replace_row verify_data_reason)
next
  case (OpUsers us)
  with assms show ?thesis by simp
qed

lemma run_reason:
  "list_all reason_only_if_rejected (achievements s) \<Longrightarrow>
   list_all reason_only_if_rejected (achievements (run s ops))"
  unfolding run_def
proof (induction ops arbitrary: s)
  case Nil
  then show ?case by simp
next
  case (Cons x ops)
  from Cons.prems have "list_all reason_only_if_rejected (achievements (step s x))"
    by (rule step_reason)
  then show ?case using Cons.IH by simp
qed

text \<open>
  C3 (as amended).  Start from a store without achievements and serve any sequence of
  Create, Update, Delete and Verify requests (and changes of the user table).  In the
  store that results, every achievement with a decision reason has status REJECTED.  The
  converse is not promised: a record rejected by a request without a reason has status
  REJECTED and no decision reason.  A successful Verify with decision APPROVED answers and
  stores a record whose decisionReason is null, whatever the record was before.
\<close>

theorem reason_only_on_rejected:
  assumes "achievements s0 = []"
  shows "list_all reason_only_if_rejected (achievements (run s0 ops)) \<and>
         (verify (run s0 ops) t caller i (JString ''APPROVED'') reason = (Reply n a', s') \<longrightarrow>
            decisionReason a' = None \<and> status a' = ''APPROVED'' \<and>
            findUnique (achievements s') i = Some a')"
proof (intro conjI impI)
  from assms show "list_all reason_only_if_rejected (achievements (run s0 ops))"
    by (intro run_reason) simp
next
  assume ok: "verify (run s0 ops) t caller i (JString ''APPROVED'') reason = (Reply n a', s')"
  from verify_replyD [OF ok] obtain coach a where
    f: "findUnique (achievements (run s0 ops)) i = Some a" and
    a': "a' = apply_patch (verify_data coach (JString ''APPROVED'') reason t) a" and
    s': "s' = (run s0 ops)\<lparr>achievements := replace_row i a' (achievements (run s0 ops))\<rparr>"
    by blast
  have "ach_id a' = i"
    using findUnique_id [OF f] a' by (simp add: ach_id_apply_patch)
  then have "findUnique (achievements s') i = Some a'"
    using findUnique_replace_row [OF f] s' by simp
  then show "findUnique (achievements s') i = Some a'" .
  show "decisionReason a' = None" unfolding a' by (simp add: verify_data_writes)
  show "status a' = ''APPROVED''" unfolding a' by (simp add: verify_data_writes)
qed

lemma create_store0: "create_achievement store0 100 ''a1'' ''P'' cbody1 = (Reply 201 ach1, store1)"
proof -
  have "new_row ''a1'' 100 ''P'' cbody1 1704844800000 = ach1"
    by (simp add: new_row_def cbody1_def ach1_def)
  moreover have "valid_create three_statuses cbody1"
    by (simp add: valid_create_def cbody1_def three_statuses_values)
  ultimately show ?thesis
    by (simp add: create_achievement_def cbody1_def store0_def findUnique_def store1_def)
qed

lemma verify_store1_rejected:
  assumes "nullable_ok r"
  shows "verify store1 200 ''C'' ''a1'' (JString ''REJECTED'') r =
     (Reply 200 (achR\<lparr>decisionReason := set_nullable r None\<rparr>),
      store1\<lparr>achievements := [achR\<lparr>decisionReason := set_nullable r None\<rparr>]\<rparr>)"
proof -
  have c: "coach_with_sport (Some coachC)" and m: "user_sport coachC = Some (sport ach1)"
    by (simp_all add: coachC_def ach1_def)
  have a: "apply_patch (verify_data coachC (JString ''REJECTED'') r 200) ach1 =
      achR\<lparr>decisionReason := set_nullable r None\<rparr>"
    by (simp add: apply_patch_def verify_data_def no_patch_def achR_def ach1_def coachC_def)
  have "replace_row ''a1'' x (achievements store1) = [x]" for x
    by (simp add: store1_def ach1_def)
  then show ?thesis
    using verify_success [OF store1_users(1) c example_rows(1) m,
        where decision = "JString ''REJECTED''" and t = 200 and reason = r] assms
    by (simp add: a valid_verify_data example_status three_statuses_values)
qed

theorem reason_only_on_rejected_witness:
  "run store0 [OpCreate 100 ''a1'' ''P'' cbody1,
               OpVerify 200 ''C'' ''a1'' (JString ''REJECTED'') (JString ''late'')] = storeR \<and>
   list_all reason_only_if_rejected (achievements storeR) \<and>
   verify storeR 300 ''C'' ''a1'' (JString ''APPROVED'') JUndefined =
     (Reply 200 (achA\<lparr>verifiedAt := Some 300\<rparr>),
      storeR\<lparr>achievements := [achA\<lparr>verifiedAt := Some 300\<rparr>]\<rparr>) \<and>
   decisionReason (achA\<lparr>verifiedAt := Some 300\<rparr>) = None"
proof -
  let ?ops = "[OpCreate 100 ''a1'' ''P'' cbody1,
               OpVerify 200 ''C'' ''a1'' (JString ''REJECTED'') (JString ''late'')]"
  have e: "achievements store0 = []" by (simp add: store0_def)
  have "achR\<lparr>decisionReason := Some ''late''\<rparr> = achR" by (simp add: achR_def)
  then have run: "run store0 ?ops = storeR"
    by (simp add: run_def create_store0 verify_store1_rejected storeR_def)
  have u: "users storeR ''C'' = Some coachC" by (simp add: storeR_def store1_def)
  have c: "coach_with_sport (Some coachC)" and m: "user_sport coachC = Some (sport achR)"
    by (simp_all add: coachC_def achR_def ach1_def)
  have a: "apply_patch (verify_data coachC (JString ''APPROVED'') JUndefined 300) achR =
      achA\<lparr>verifiedAt := Some 300\<rparr>"
    by (simp add: apply_patch_def verify_data_def no_patch_def achR_def achA_def ach1_def
        coachC_def)
  have r: "replace_row ''a1'' x (achievements storeR) = [x]" for x
    by (simp add: storeR_def achR_def ach1_def)
  have v: "verify storeR 300 ''C'' ''a1'' (JString ''APPROVED'') JUndefined =
     (Reply 200 (achA\<lparr>verifiedAt := Some 300\<rparr>),
      storeR\<lparr>achievements := [achA\<lparr>verifiedAt := Some 300\<rparr>]\<rparr>)"
    using verify_success [OF u c example_rows(3) m,
        where decision = "JString ''APPROVED''" and t = 300 and reason = JUndefined]
    by (simp add: a r valid_verify_data example_status three_statuses_values)
  from reason_only_on_rejected [OF e, of ?ops 300 "''C''" "''a1''" JUndefined 200
      "achA\<lparr>verifiedAt := Some 300\<rparr>"
      "storeR\<lparr>achievements := [achA\<lparr>verifiedAt := Some 300\<rparr>]\<rparr>"]
  show ?thesis
    unfolding run using v by simp
qed

text \<open>
  The equivalence as stated fails from right to left: a Create followed by a Verify that
  rejects with a null reason leaves a record with status REJECTED and no decision reason.
\<close>

theorem rejected_without_reason_counterexample:
  "run store0 [OpCreate 100 ''a1'' ''P'' cbody1,
               OpVerify 200 ''C'' ''a1'' (JString ''REJECTED'') JNull] =
     store1\<lparr>achievements := [achR\<lparr>decisionReason := None\<rparr>]\<rparr> \<and>
   status (achR\<lparr>decisionReason := None\<rparr>) = ''REJECTED'' \<and>
   decisionReason (achR\<lparr>decisionReason := None\<rparr>) = None"
proof -
  have "status (achR\<lparr>decisionReason := None\<rparr>) = ''REJECTED''" by (simp add: achR_def)
  then show ?thesis
    by (simp add: run_def create_store0 verify_store1_rejected)
qed

section \<open>The pending list of a coach\<close>

lemma pending_of_sport_mset:
  "mset (pending_of_sport rows sp) =
     filter_mset (\<lambda>a. status a = ''PENDING'' \<and> sport a = sp) (mset rows)"
  by (simp add: pending_of_sport_def)

lemma pending_of_sport_sorted:
  "sorted_wrt (\<lambda>a b. createdAt b \<le> createdAt a) (pending_of_sport rows sp)"
proof -
  have "sorted (map (\<lambda>a. - createdAt a) (pending_of_sport rows sp))"
    unfolding pending_of_sport_def by (rule sorted_sort_key)
  then show ?thesis by (simp add: sorted_map)
qed

lemma list_pending_coach:
  assumes "users s caller = Some coach" and "role coach = ''Coach''"
    and "user_sport coach = Some sp" and "sp \<noteq> []"
  shows "list_pending s caller =
           Reply 200 (map (with_owner s) (pending_of_sport (achievements s) sp))"
  using assms by (simp add: list_pending_def)

lemma list_pending_forbidden:
  "\<not> coach_with_sport (users s caller) \<Longrightarrow> list_pending s caller = Failure 403 ''Forbidden''"
  by (cases "users s caller") (auto simp: list_pending_def split: option.splits)

text \<open>
  C8.  For a caller whose role is Coach and whose sport is set, the pending list is
  answered with 200: its achievements are exactly the rows of the table with status
  PENDING and the coach's sport (each as often as the table has it), in the order of
  creation time with the newest first, and each is paired with the username of its owner.
  For a caller without a user row, not a Coach, or without a sport, the answer is 403
  "Forbidden".
\<close>

theorem list_pending_exact:
  "(users s caller = Some coach \<and> role coach = ''Coach'' \<and> user_sport coach = Some sp \<and>
      sp \<noteq> [] \<longrightarrow>
      (\<exists>rows. list_pending s caller = Reply 200 rows \<and>
         mset (map fst rows) =
           filter_mset (\<lambda>a. status a = ''PENDING'' \<and> sport a = sp) (mset (achievements s)) \<and>
         sorted_wrt (\<lambda>x y. createdAt (fst y) \<le> createdAt (fst x)) rows \<and>
         list_all (\<lambda>x. snd x = map_option username (users s (ownerId (fst x)))) rows)) \<and>
   (\<not> coach_with_sport (users s caller) \<longrightarrow> list_pending s caller = Failure 403 ''Forbidden'')"
proof (intro conjI impI)
  assume c: "users s caller = Some coach \<and> role coach = ''Coach'' \<and>
    user_sport coach = Some sp \<and> sp \<noteq> []"
  let ?rows = "map (with_owner s) (pending_of_sport (achievements s) sp)"
  have fst: "map fst ?rows = pending_of_sport (achievements s) sp"
    by (simp add: with_owner_def comp_def)
  have "list_pending s caller = Reply 200 ?rows"
    using c by (simp add: list_pending_coach)
  moreover have "mset (map fst ?rows) =
      filter_mset (\<lambda>a. status a = ''PENDING'' \<and> sport a = sp) (mset (achievements s))"
    unfolding fst by (rule pending_of_sport_mset)
  moreover have "sorted_wrt (\<lambda>x y. createdAt (fst y) \<le> createdAt (fst x)) ?rows"
    using pending_of_sport_sorted [of "achievements s" sp]
    by (simp add: sorted_wrt_map with_owner_def)
  moreover have "list_all (\<lambda>x. snd x = map_option username (users s (ownerId (fst x)))) ?rows"
    by (simp add: list_all_iff with_owner_def)
  ultimately show "\<exists>rows. list_pending s caller = Reply 200 rows \<and>
      mset (map fst rows) =
        filter_mset (\<lambda>a. status a = ''PENDING'' \<and> sport a = sp) (mset (achievements s)) \<and>
      sorted_wrt (\<lambda>x y. createdAt (fst y) \<le> createdAt (fst x)) rows \<and>
      list_all (\<lambda>x. snd x = map_option username (users s (ownerId (fst x)))) rows"
    by blast
next
  assume "\<not> coach_with_sport (users s caller)"
  then show "list_pending s caller = Failure 403 ''Forbidden''"
    by (rule list_pending_forbidden)
qed

lemma list_pending_store2:
  "list_pending store2 ''C'' = Reply 200 [(ach2, Some ''quinn''), (ach1, Some ''pat'')]"
proof -
  have u: "users store2 ''C'' = Some coachC" by (simp add: store2_def store1_def)
  have c: "role coachC = ''Coach''" "user_sport coachC = Some ''cricket''" "''cricket'' \<noteq> []"
    by (simp_all add: coachC_def)
  have "pending_of_sport (achievements store2) ''cricket'' = [ach2, ach1]"
    by (simp add: pending_of_sport_def store2_def ach1_def ach2_def ach3_def ach4_def achA_def)
  moreover have "with_owner store2 ach2 = (ach2, Some ''quinn'')"
    "with_owner store2 ach1 = (ach1, Some ''pat'')"
    by (simp_all add: with_owner_def store2_def store1_def ach1_def ach2_def playerP_def
        playerQ_def)
  ultimately show ?thesis
    using list_pending_coach [OF u c] by simp
qed

theorem list_pending_exact_witness:
  "list_pending store2 ''C'' = Reply 200 [(ach2, Some ''quinn''), (ach1, Some ''pat'')] \<and>
   mset [ach2, ach1] =
     filter_mset (\<lambda>a. status a = ''PENDING'' \<and> sport a = ''cricket'')
       (mset (achievements store2)) \<and>
   list_pending store2 ''P'' = Failure 403 ''Forbidden''"
proof -
  have u: "users store2 ''C'' = Some coachC" "users store2 ''P'' = Some playerP"
    by (simp_all add: store2_def store1_def)
  have c: "role coachC = ''Coach''" "user_sport coachC = Some ''cricket''"
    by (simp_all add: coachC_def)
  have p: "role playerP \<noteq> ''Coach''" by (simp add: playerP_def)
  from list_pending_exact [of store2 "''C''" coachC "''cricket''"]
       list_pending_exact [of store2 "''P''" coachC "''cricket''"]
  show ?thesis
    by (simp add: u c p list_pending_store2)
qed

section \<open>The attendance rate of the coach report\<close>

lemma attendance_rate_None_iff: "attendance_rate rs = None \<longleftrightarrow> rs = []"
  by (simp add: attendance_rate_def)

lemma coach_report_coach:
  assumes "users s caller = Some coach" and "role coach = ''Coach''"
    and "user_sport coach = Some sp" and "sp \<noteq> []"
  shows "coach_report s t caller = Reply 200 (coach_kpis s t coach sp)"
  using assms by (simp add: coach_report_def)

text \<open>
  The rate is null exactly when the coach has no schedule request from the last thirty
  days.
\<close>

lemma coach_report_attendance_null:
  assumes "users s caller = Some coach" and "role coach = ''Coach''"
    and "user_sport coach = Some sp" and "sp \<noteq> []"
  shows "\<exists>k. coach_report s t caller = Reply 200 k \<and>
           (attendanceRatePct k = None \<longleftrightarrow>
              requests_since s (user_id coach) (thirtyDaysAgo t) = [])"
  using coach_report_coach [OF assms]
  by (simp add: coach_kpis_def attendance_rate_None_iff)

lemma rate_23_of_40: "Math_round (js_mul (js_div 23 40) 100) = 57"
  by (simp add: js_div_def nearest_even_def round53.simps)

lemma store3_requests:
  "requests_since store3 ''C'' t =
     (if t \<le> 2900000000 then replicate 23 requestA @ replicate 17 requestP else [])"
  by (simp add: requests_since_def under_coach_def store3_def session1_def requestA_def
      requestP_def filter_replicate)

lemma store3_approved:
  "filter (\<lambda>r. req_status r = ''APPROVED'') (replicate 23 requestA @ replicate 17 requestP) =
     replicate 23 requestA"
  by (simp add: filter_replicate requestA_def requestP_def)

lemma store3_players:
  "length (remdups (replicate 23 (playerId requestA) @ replicate 17 (playerId requestP))) = 2"
proof -
  have "set (replicate 23 (playerId requestA) @ replicate 17 (playerId requestP)) = {''P'', ''Q''}"
    by (auto simp: requestA_def requestP_def)
  then show ?thesis by (simp add: length_remdups_card_conv)
qed

lemma store3_counts:
  "filter (\<lambda>a. player_of_sport store3 ''cricket'' (ownerId a) \<and> status a = ''APPROVED'')
     (achievements store3) = []"
  "filter (\<lambda>a. player_of_sport store3 ''cricket'' (ownerId a) \<and> status a = ''PENDING'')
     (achievements store3) = [ach1]"
  "registrations store3 = []"
  "filter (\<lambda>x. coachId x = ''C'' \<and> time_now clock3 \<le> sched_date x \<and>
                 sched_date x \<le> sevenDaysFromNow clock3) (schedules store3) = [session1]"
  by (simp_all add: player_of_sport_def store3_def store1_def ach1_def playerP_def session1_def
      clock3_def)

text \<open>
  C9, at forty requests in the window of which twenty-three are approved.  The exact rate
  is 57.5, which rounding half up and rounding half to even both take to 58.  The handler
  divides first: 23 / 40 is the double just below 0.575, its product with 100 is the
  double 57.49999999999999, and the report says 57.
\<close>

theorem coach_report_attendance_tie:
  "requests_since store3 ''C'' (thirtyDaysAgo clock3) =
     replicate 23 requestA @ replicate 17 requestP \<and>
   req_status requestA = ''APPROVED'' \<and> req_status requestP = ''PENDING'' \<and>
   coach_report store3 clock3 ''C'' =
     Reply 200 \<lparr> achievementsApproved = 0, achievementsPending = 1, regPending = 0,
       regConfirmed = 0, upcomingSessions7d = 1, activePlayersThisWeek = 2,
       attendanceRatePct = Some 57 \<rparr> \<and>
   rate_as_specified 23 40 = 58"
proof -
  have u: "users store3 ''C'' = Some coachC" by (simp add: store3_def store1_def)
  have c: "role coachC = ''Coach''" "user_sport coachC = Some ''cricket''" "''cricket'' \<noteq> []"
    by (simp_all add: coachC_def)
  have id: "user_id coachC = ''C''" by (simp add: coachC_def)
  have w: "thirtyDaysAgo clock3 \<le> 2900000000" "sevenDaysAgo clock3 \<le> 2900000000"
    by (simp_all add: clock3_def)
  have rate: "attendance_rate (replicate 23 requestA @ replicate 17 requestP) = Some 57"
    unfolding attendance_rate_def store3_approved by (simp add: rate_23_of_40)
  have "coach_kpis store3 clock3 coachC ''cricket'' =
      \<lparr> achievementsApproved = 0, achievementsPending = 1, regPending = 0,
        regConfirmed = 0, upcomingSessions7d = 1, activePlayersThisWeek = 2,
        attendanceRatePct = Some 57 \<rparr>"
    unfolding coach_kpis_def id store3_requests store3_counts
    by (simp add: w rate store3_players)
  then have "coach_report store3 clock3 ''C'' =
      Reply 200 \<lparr> achievementsApproved = 0, achievementsPending = 1, regPending = 0,
        regConfirmed = 0, upcomingSessions7d = 1, activePlayersThisWeek = 2,
        attendanceRatePct = Some 57 \<rparr>"
    using coach_report_coach [OF u c, of clock3] by simp
  moreover have "rate_as_specified 23 40 = 58"
    by (simp add: rate_as_specified_def round_def)
  moreover have "req_status requestA = ''APPROVED''" "req_status requestP = ''PENDING''"
    by (simp_all add: requestA_def requestP_def)
  ultimately show ?thesis by (simp add: store3_requests w)
qed

end
